theory Spec2Isabelle
  imports Main
begin

unbundle bit_operations_syntax

section \<open>JavaScript values: strings and numbers\<close>

text \<open>
  Strings are \<^typ>\<open>string\<close>; the model covers ASCII strings, for which \<open>length\<close> is
  \<open>.length\<close>, \<open>of_char\<close> is \<open>charCodeAt\<close> and the characters are the bytes that
  the hash library reads. Numbers that the code only ever uses as integers (timestamps of
  \<open>Date.now()\<close>, vote choices, indices) are \<^typ>\<open>int\<close>; fractional values and NaN
  are outside the model. The clock \<open>Date.now()\<close> and the random strings of
  \<open>crypto.getRandomValues\<close> are explicit arguments of the functions that read them.
\<close>

definition digit_char :: "nat \<Rightarrow> char" where
  "digit_char d = ''0123456789abcdef'' ! d"

text \<open>\<open>n.toString(b)\<close> for a non-negative integer \<open>n\<close> and a radix \<open>2 \<le> b \<le> 16\<close>.\<close>

function radix_string :: "nat \<Rightarrow> nat \<Rightarrow> string" where
  "radix_string b n =
     (if n < b \<or> b < 2 then [digit_char n]
      else radix_string b (n div b) @ [digit_char (n mod b)])"
  by pat_completeness auto
termination
  by (relation "measure snd") (auto simp: not_less)

declare radix_string.simps [simp del]

text \<open>\<open>n.toString()\<close> for an integer.\<close>

definition number_toString :: "int \<Rightarrow> string" where
  "number_toString i =
     (if i < 0 then ''-'' @ radix_string 10 (nat (- i)) else radix_string 10 (nat i))"

text \<open>\<open>xs.join(sep)\<close>.\<close>

fun join :: "string \<Rightarrow> string list \<Rightarrow> string" where
  "join sep [] = []"
| "join sep [x] = x"
| "join sep (x # y # ys) = x @ sep @ join sep (y # ys)"

text \<open>
  \<open>ToInt32\<close>, the conversion behind \<open><<\<close> and \<open>&\<close>, and the string hash that
  \<open>NullifierService\<close> and the mock \<open>Poseidon.hash\<close> share:
  \<^verbatim>\<open>hash = ((hash << 5) - hash) + char; hash = hash & hash;\<close>
\<close>

definition toInt32 :: "int \<Rightarrow> int" where
  "toInt32 x = (x + 2147483648) mod 4294967296 - 2147483648"

definition hash_step :: "int \<Rightarrow> char \<Rightarrow> int" where
  "hash_step h c = toInt32 (toInt32 (h * 32) - h + of_char c)"

definition string_hash32 :: "string \<Rightarrow> int" where
  "string_hash32 input = foldl hash_step 0 input"

section \<open>The external hash: \<open>CryptoJS.SHA256(s).toString()\<close>\<close>

text \<open>
  The library function is not part of the repository. It is SHA-256 of FIPS 180-4 over the
  bytes of the string, printed as 64 lower-case hexadecimal digits; the definition below
  follows the standard, with 32-bit words as integers and the wrap-around written out.
  The 64 round constants and the 8 initial hash values are given in decimal.
\<close>

definition wrap32 :: "int \<Rightarrow> int" where
  "wrap32 x = x mod 4294967296"

definition add32 :: "int \<Rightarrow> int \<Rightarrow> int" where
  "add32 a b = wrap32 (a + b)"

definition rotr :: "nat \<Rightarrow> int \<Rightarrow> int" where
  "rotr n x = x div 2 ^ n + (x mod 2 ^ n) * 2 ^ (32 - n)"

definition shr :: "nat \<Rightarrow> int \<Rightarrow> int" where
  "shr n x = x div 2 ^ n"

definition Ch :: "int \<Rightarrow> int \<Rightarrow> int \<Rightarrow> int" where
  "Ch x y z = (x AND y) XOR ((4294967295 - x) AND z)"

definition Maj :: "int \<Rightarrow> int \<Rightarrow> int \<Rightarrow> int" where
  "Maj x y z = (x AND y) XOR (x AND z) XOR (y AND z)"

definition Sigma0 :: "int \<Rightarrow> int" where
  "Sigma0 x = rotr 2 x XOR rotr 13 x XOR rotr 22 x"

definition Sigma1 :: "int \<Rightarrow> int" where
  "Sigma1 x = rotr 6 x XOR rotr 11 x XOR rotr 25 x"

definition sigma0 :: "int \<Rightarrow> int" where
  "sigma0 x = rotr 7 x XOR rotr 18 x XOR shr 3 x"

definition sigma1 :: "int \<Rightarrow> int" where
  "sigma1 x = rotr 17 x XOR rotr 19 x XOR shr 10 x"

definition K256 :: "int list" where
  "K256 =
    [1116352408, 1899447441, 3049323471, 3921009573, 961987163, 1508970993,
     2453635748, 2870763221, 3624381080, 310598401, 607225278, 1426881987,
     1925078388, 2162078206, 2614888103, 3248222580, 3835390401, 4022224774,
     264347078, 604807628, 770255983, 1249150122, 1555081692, 1996064986,
     2554220882, 2821834349, 2952996808, 3210313671, 3336571891, 3584528711,
     113926993, 338241895, 666307205, 773529912, 1294757372, 1396182291,
     1695183700, 1986661051, 2177026350, 2456956037, 2730485921, 2820302411,
     3259730800, 3345764771, 3516065817, 3600352804, 4094571909, 275423344,
     430227734, 506948616, 659060556, 883997877, 958139571, 1322822218,
     1537002063, 1747873779, 1955562222, 2024104815, 2227730452, 2361852424,
     2428436474, 2756734187, 3204031479, 3329325298]"

type_synonym sha_state = "int \<times> int \<times> int \<times> int \<times> int \<times> int \<times> int \<times> int"

definition H256 :: sha_state where
  "H256 = (1779033703, 3144134277, 1013904242, 2773480762,
           1359893119, 2600822924, 528734635, 1541459225)"

text \<open>
  The message schedule, newest word first: from the sixteen words \<open>W(t-1), ..., W(t-16)\<close>
  the next word is \<open>sigma1 (W(t-2)) + W(t-7) + sigma0 (W(t-15)) + W(t-16)\<close>.
\<close>

definition next_word :: "int list \<Rightarrow> int" where
  "next_word ws = add32 (add32 (sigma1 (ws ! 1)) (ws ! 6)) (add32 (sigma0 (ws ! 14)) (ws ! 15))"

fun schedule :: "nat \<Rightarrow> int list \<Rightarrow> int list" where
  "schedule 0 ws = ws"
| "schedule (Suc n) ws = schedule n (next_word ws # ws)"

fun step :: "int \<Rightarrow> int \<Rightarrow> sha_state \<Rightarrow> sha_state" where
  "step t1 t2 (a, b, c, d, e, f, g, h) = (add32 t1 t2, a, b, c, add32 d t1, e, f, g)"

fun round1 :: "int \<Rightarrow> int \<Rightarrow> sha_state \<Rightarrow> sha_state" where
  "round1 k w (a, b, c, d, e, f, g, h) =
     step (add32 (add32 (add32 (add32 h (Sigma1 e)) (Ch e f g)) k) w)
          (add32 (Sigma0 a) (Maj a b c)) (a, b, c, d, e, f, g, h)"

fun rounds :: "int list \<Rightarrow> int list \<Rightarrow> sha_state \<Rightarrow> sha_state" where
  "rounds (k # ks) (w # ws) s = rounds ks ws (round1 k w s)"
| "rounds [] ws s = s"
| "rounds (k # ks) [] s = s"

fun add_state :: "sha_state \<Rightarrow> sha_state \<Rightarrow> sha_state" where
  "add_state (a, b, c, d, e, f, g, h) (a', b', c', d', e', f', g', h') =
     (add32 a a', add32 b b', add32 c c', add32 d d',
      add32 e e', add32 f f', add32 g g', add32 h h')"

definition compress :: "sha_state \<Rightarrow> int list \<Rightarrow> sha_state" where
  "compress hs block = add_state hs (rounds K256 (rev (schedule 48 (rev block))) hs)"

fun be_words :: "int list \<Rightarrow> int list" where
  "be_words (a # b # c # d # rest) = (((a * 256 + b) * 256 + c) * 256 + d) # be_words rest"
| "be_words _ = []"

definition be_bytes8 :: "int \<Rightarrow> int list" where
  "be_bytes8 v = map (\<lambda>i. (v div 256 ^ i) mod 256) [7, 6, 5, 4, 3, 2, 1, 0]"

definition pad :: "int list \<Rightarrow> int list" where
  "pad bs = bs @ [128] @ replicate ((119 - length bs mod 64) mod 64) 0
              @ be_bytes8 (8 * int (length bs))"

fun blocks :: "int list \<Rightarrow> sha_state \<Rightarrow> sha_state" where
  "blocks [] hs = hs"
| "blocks (w # ws) hs = blocks (drop 16 (w # ws)) (compress hs (take 16 (w # ws)))"

definition hex_word :: "int \<Rightarrow> string" where
  "hex_word w = map (\<lambda>i. digit_char (nat ((w div 16 ^ i) mod 16))) [7, 6, 5, 4, 3, 2, 1, 0]"

fun state_words :: "sha_state \<Rightarrow> int list" where
  "state_words (a, b, c, d, e, f, g, h) = [a, b, c, d, e, f, g, h]"

definition SHA256 :: "string \<Rightarrow> string" where
  "SHA256 s = concat (map hex_word (state_words (blocks (be_words (pad (map of_char s))) H256)))"

section \<open>NullifierService (ui/src/services/nullifierService.ts)\<close>

text \<open>
  The service keeps \<open>usedNullifiers: Map<string, NullifierRecord>\<close>; its methods take
  the service and return it with their result. Field names that several interfaces of
  the repository share carry a prefix here (\<open>sr_\<close> for this file's \<open>NullifierRecord\<close>,
  \<open>er_\<close> for \<open>VoteAttemptResult\<close>, \<open>sd_\<close> for the details of a status).
\<close>

record ServiceRecord =
  sr_nullifier :: string
  sr_proposalId :: string
  sr_voterIdentifier :: string
  sr_timestamp :: int

record VoteAttemptResult =
  canVote :: bool
  er_nullifier :: string
  er_reason :: "string option"
  previousVoteTime :: "int option"

record NullifierService =
  ns_usedNullifiers :: "string \<rightharpoonup> ServiceRecord"

definition ns_generateNullifier :: "string \<Rightarrow> string \<Rightarrow> string" where
  "ns_generateNullifier voterSecret proposalId =
     ''nullifier_'' @ radix_string 16
        (nat \<bar>string_hash32 (voterSecret @ '':'' @ proposalId @ '':nullifier_salt_2024'')\<bar>)"

definition checkVoteEligibility ::
  "NullifierService \<Rightarrow> string \<Rightarrow> string \<Rightarrow> VoteAttemptResult \<times> NullifierService" where
  "checkVoteEligibility svc voterSecret proposalId =
     (case ns_usedNullifiers svc (ns_generateNullifier voterSecret proposalId) of
        Some existingRecord \<Rightarrow>
          (\<lparr>canVote = False,
            er_nullifier = ns_generateNullifier voterSecret proposalId,
            er_reason = Some ''You have already voted on this proposal'',
            previousVoteTime = Some (sr_timestamp existingRecord)\<rparr>, svc)
      | None \<Rightarrow>
          (\<lparr>canVote = True,
            er_nullifier = ns_generateNullifier voterSecret proposalId,
            er_reason = Some ''Ready to vote - this will be your first vote on this proposal'',
            previousVoteTime = None\<rparr>, svc))"

definition hashVoterIdentifier :: "string \<Rightarrow> string" where
  "hashVoterIdentifier voterSecret =
     ''voter_'' @ take 8 (radix_string 16 (nat \<bar>string_hash32 (''voter_id_'' @ voterSecret)\<bar>))"

text \<open>\<open>recordVote\<close>; the last argument is the reading of \<open>Date.now()\<close>.\<close>

definition recordVote ::
  "NullifierService \<Rightarrow> string \<Rightarrow> string \<Rightarrow> int \<Rightarrow> VoteAttemptResult \<times> NullifierService" where
  "recordVote svc voterSecret proposalId now =
     (case checkVoteEligibility svc voterSecret proposalId of
        (eligibility, svc1) \<Rightarrow>
          if \<not> canVote eligibility then (eligibility, svc1)
          else
            (\<lparr>canVote = True,
              er_nullifier = er_nullifier eligibility,
              er_reason = Some ''Vote successfully recorded'',
              previousVoteTime = None\<rparr>,
             svc1\<lparr>ns_usedNullifiers := (ns_usedNullifiers svc1)
               (er_nullifier eligibility \<mapsto>
                 \<lparr>sr_nullifier = er_nullifier eligibility,
                  sr_proposalId = proposalId,
                  sr_voterIdentifier = hashVoterIdentifier voterSecret,
                  sr_timestamp = now\<rparr>)\<rparr>))"

text \<open>\<open>formatTimeAgo\<close>: \<open>Math.floor\<close> of a quotient of integers is \<open>div\<close>.\<close>

definition plural :: "int \<Rightarrow> string" where
  "plural n = (if n > 1 then ''s'' else [])"

definition formatTimeAgo :: "int \<Rightarrow> int \<Rightarrow> string" where
  "formatTimeAgo now ts =
     (if (now - ts) div (1000 * 60 * 60 * 24) > 0 then
        number_toString ((now - ts) div (1000 * 60 * 60 * 24)) @ '' day''
          @ plural ((now - ts) div (1000 * 60 * 60 * 24)) @ '' ago''
      else if (now - ts) div (1000 * 60 * 60) > 0 then
        number_toString ((now - ts) div (1000 * 60 * 60)) @ '' hour''
          @ plural ((now - ts) div (1000 * 60 * 60)) @ '' ago''
      else if (now - ts) div (1000 * 60) > 0 then
        number_toString ((now - ts) div (1000 * 60)) @ '' minute''
          @ plural ((now - ts) div (1000 * 60)) @ '' ago''
      else ''just now'')"

datatype vote_status = CanVote | AlreadyVoted | Checking

record StatusDetails =
  sd_nullifier :: string
  sd_previousVoteTime :: "int option"
  sd_timeAgo :: "string option"

record VoteStatus =
  status :: vote_status
  message :: string
  details :: "StatusDetails option"

text \<open>
  \<open>getVoteStatus\<close>. The two messages start with an emoji in the source, which is left
  out here. \<open>result.previousVoteTime ? \<dots> : 'unknown time'\<close> takes the second branch for
  a missing time and for the time 0.
\<close>

definition getVoteStatus ::
  "NullifierService \<Rightarrow> string \<Rightarrow> string \<Rightarrow> int \<Rightarrow> VoteStatus \<times> NullifierService" where
  "getVoteStatus svc voterSecret proposalId now =
     (case checkVoteEligibility svc voterSecret proposalId of
        (result, svc1) \<Rightarrow>
          if canVote result then
            (\<lparr>status = CanVote,
              message = ''Ready to vote'',
              details = Some \<lparr>sd_nullifier = er_nullifier result,
                               sd_previousVoteTime = None,
                               sd_timeAgo = None\<rparr>\<rparr>, svc1)
          else
            (\<lparr>status = AlreadyVoted,
              message = ''Already voted on this proposal'',
              details = Some \<lparr>sd_nullifier = er_nullifier result,
                               sd_previousVoteTime = previousVoteTime result,
                               sd_timeAgo = Some
                                 (case previousVoteTime result of
                                    None \<Rightarrow> ''unknown time''
                                  | Some t \<Rightarrow>
                                      if t = 0 then ''unknown time'' else formatTimeAgo now t)\<rparr>\<rparr>,
             svc1))"

section \<open>DoubleVotePreventionSystem (src/doubleVotePrevention.ts)\<close>

record VoteAttempt =
  va_proposalId :: string
  va_voterSecret :: string
  va_voteChoice :: int
  va_timestamp :: int

record NullifierRecord =
  nr_nullifier :: string
  nr_proposalId :: string
  nr_timestamp :: int
  nr_blockNumber :: int

record AttemptResult =
  success :: bool
  ar_nullifier :: string
  ar_reason :: "string option"
  previousVote :: "NullifierRecord option"

record DoubleVotePreventionSystem =
  usedNullifiers :: "string \<rightharpoonup> NullifierRecord"
  nullifierHistory :: "NullifierRecord list"

text \<open>The state of \<open>new DoubleVotePreventionSystem()\<close>.\<close>

definition new_DoubleVotePreventionSystem :: DoubleVotePreventionSystem where
  "new_DoubleVotePreventionSystem = \<lparr>usedNullifiers = Map.empty, nullifierHistory = []\<rparr>"

definition generateNullifier :: "string \<Rightarrow> string \<Rightarrow> string" where
  "generateNullifier voterSecret proposalId =
     SHA256 (voterSecret @ '':'' @ proposalId @ '':nullifier_salt_2024'')"

definition getNextBlockNumber :: "DoubleVotePreventionSystem \<Rightarrow> int" where
  "getNextBlockNumber sys = int (length (nullifierHistory sys)) + 1000"

definition attemptVote ::
  "DoubleVotePreventionSystem \<Rightarrow> VoteAttempt \<Rightarrow> AttemptResult \<times> DoubleVotePreventionSystem" where
  "attemptVote sys voteAttempt =
     (case usedNullifiers sys
             (generateNullifier (va_voterSecret voteAttempt) (va_proposalId voteAttempt)) of
        Some existingRecord \<Rightarrow>
          (\<lparr>success = False,
            ar_nullifier = generateNullifier (va_voterSecret voteAttempt) (va_proposalId voteAttempt),
            ar_reason = Some ''Double voting detected'',
            previousVote = Some existingRecord\<rparr>, sys)
      | None \<Rightarrow>
          (\<lparr>success = True,
            ar_nullifier = generateNullifier (va_voterSecret voteAttempt) (va_proposalId voteAttempt),
            ar_reason = None,
            previousVote = None\<rparr>,
           \<lparr>usedNullifiers = (usedNullifiers sys)
              (generateNullifier (va_voterSecret voteAttempt) (va_proposalId voteAttempt) \<mapsto>
                \<lparr>nr_nullifier =
                    generateNullifier (va_voterSecret voteAttempt) (va_proposalId voteAttempt),
                 nr_proposalId = va_proposalId voteAttempt,
                 nr_timestamp = va_timestamp voteAttempt,
                 nr_blockNumber = getNextBlockNumber sys\<rparr>),
            nullifierHistory = nullifierHistory sys @
              [\<lparr>nr_nullifier =
                   generateNullifier (va_voterSecret voteAttempt) (va_proposalId voteAttempt),
                nr_proposalId = va_proposalId voteAttempt,
                nr_timestamp = va_timestamp voteAttempt,
                nr_blockNumber = getNextBlockNumber sys\<rparr>]\<rparr>))"

definition isNullifierUsed :: "DoubleVotePreventionSystem \<Rightarrow> string \<Rightarrow> bool" where
  "isNullifierUsed sys n = (usedNullifiers sys n \<noteq> None)"

definition getProposalNullifiers ::
  "DoubleVotePreventionSystem \<Rightarrow> string \<Rightarrow> NullifierRecord list" where
  "getProposalNullifiers sys proposalId =
     filter (\<lambda>r. nr_proposalId r = proposalId) (nullifierHistory sys)"

text \<open>A sequence of submissions, one after the other, on the same system.\<close>

fun attemptVotes ::
  "DoubleVotePreventionSystem \<Rightarrow> VoteAttempt list \<Rightarrow> DoubleVotePreventionSystem" where
  "attemptVotes sys [] = sys"
| "attemptVotes sys (v # vs) = attemptVotes (snd (attemptVote sys v)) vs"

section \<open>SecureCryptographicNullifier and SecureNullifierRegistry (cryptography/secureNullifier)\<close>

record SecureVoterCredentials =
  voterSecret :: string
  voterCommitment :: string
  merkleIndex :: int
  merkleProof :: "string list"
  voterPublicKey :: string
  voterPrivateKey :: string

record SecureNullifierProof =
  nullifier :: string
  nullifierProof :: string
  voteCommitment :: string
  rangeProof :: string
  membershipProof :: string
  timestamp :: int
  nonce :: string

text \<open>\<open>throw new Error('Invalid vote choice. Must be 0 or 1.')\<close>\<close>

datatype vote_error = InvalidVoteChoice

definition CURVE_ORDER :: string where
  "CURVE_ORDER =
     ''21888242871839275222246405745257275088696311157297823662689037894645226208583''"

definition GENERATOR_POINT :: string where
  "GENERATOR_POINT = ''0x01''"

definition PEDERSEN_H :: string where
  "PEDERSEN_H = ''0x02''"

definition concatenateInputs :: "string list \<Rightarrow> string list" where
  "concatenateInputs inputs = map SHA256 inputs"

definition modularReduction :: "string \<Rightarrow> string \<Rightarrow> string" where
  "modularReduction v modulus = take 64 (SHA256 v)"

definition poseidonHash :: "string list \<Rightarrow> string" where
  "poseidonHash inputs = modularReduction (SHA256 (join ''||'' inputs)) CURVE_ORDER"

definition pedersenCommit :: "string \<Rightarrow> string \<Rightarrow> string" where
  "pedersenCommit v blindingFactor =
     SHA256 (SHA256 (v @ GENERATOR_POINT) @ SHA256 (blindingFactor @ PEDERSEN_H))"

definition generateNullifierProof ::
  "SecureVoterCredentials \<Rightarrow> string \<Rightarrow> string \<Rightarrow> string \<Rightarrow> string" where
  "generateNullifierProof credentials proposalId nullifier_value nonce_value =
     poseidonHash [voterCommitment credentials, proposalId, nullifier_value, nonce_value]"

definition generateRangeProof :: "int \<Rightarrow> string \<Rightarrow> string" where
  "generateRangeProof voteChoice blindingFactor =
     poseidonHash [number_toString voteChoice, blindingFactor, ''range_proof_salt'']"

definition generateMembershipProof :: "SecureVoterCredentials \<Rightarrow> string" where
  "generateMembershipProof credentials =
     poseidonHash [voterCommitment credentials, number_toString (merkleIndex credentials),
                   ''membership_proof_salt'']"

text \<open>
  \<open>generateSecureNullifier\<close>. What the function draws from its environment is passed in,
  in the order in which it draws: the nonce (\<open>generateSecureRandom()\<close>), the time
  (\<open>Date.now()\<close>) and the blinding factor of the vote (\<open>generateSecureRandom()\<close>).
\<close>

definition generateSecureNullifier ::
  "SecureVoterCredentials \<Rightarrow> string \<Rightarrow> int \<Rightarrow> string \<Rightarrow> int \<Rightarrow> string
     \<Rightarrow> vote_error + SecureNullifierProof" where
  "generateSecureNullifier voterCredentials proposalId voteChoice nonce_value now
       voteBlindingFactor =
     (if voteChoice \<noteq> 0 \<and> voteChoice \<noteq> 1 then Inl InvalidVoteChoice
      else
        let nullifier_value =
              poseidonHash (concatenateInputs
                [voterSecret voterCredentials, proposalId, nonce_value, number_toString now])
        in Inr \<lparr>nullifier = nullifier_value,
                 nullifierProof =
                   generateNullifierProof voterCredentials proposalId nullifier_value nonce_value,
                 voteCommitment = pedersenCommit (number_toString voteChoice) voteBlindingFactor,
                 rangeProof = generateRangeProof voteChoice voteBlindingFactor,
                 membershipProof = generateMembershipProof voterCredentials,
                 timestamp = now,
                 nonce = nonce_value\<rparr>)"

definition verifyRangeProof :: "string \<Rightarrow> string \<Rightarrow> bool" where
  "verifyRangeProof prf commitment = (length prf = 64 \<and> length commitment = 64)"

definition verifyMembershipProof :: "string \<Rightarrow> string \<Rightarrow> bool" where
  "verifyMembershipProof prf root = (length prf = 64 \<and> length root > 0)"

definition verifyNullifierStructure :: "SecureNullifierProof \<Rightarrow> bool" where
  "verifyNullifierStructure bundle =
     (length (nullifier bundle) = 64 \<and>
      length (nullifierProof bundle) = 64 \<and>
      length (voteCommitment bundle) = 64 \<and>
      length (rangeProof bundle) = 64 \<and>
      length (membershipProof bundle) = 64 \<and>
      length (nonce bundle) = 64 \<and>
      timestamp bundle > 0)"

text \<open>
  \<open>verifyNullifierProof\<close>, with the reading of \<open>Date.now()\<close> as its last argument. The
  function is a sequence of \<open>if (!check) return false\<close>; the outcome below records which
  \<open>return\<close> is taken. The source first computes \<open>expectedNullifierInput\<close> from the
  proposal, the nonce and the timestamp and never uses it, so it has no counterpart here.
  No check throws on a value of the interface's type, so the \<open>catch\<close> is never entered.
\<close>

datatype verifier_check = RangeProofCheck | MembershipProofCheck | StructureCheck | TimestampCheck

datatype verifier_outcome = ReturnsTrue | ReturnsFalseAt verifier_check

definition verifyNullifierProof_outcome ::
  "SecureNullifierProof \<Rightarrow> string \<Rightarrow> string \<Rightarrow> int \<Rightarrow> verifier_outcome" where
  "verifyNullifierProof_outcome bundle proposalId voterRegistryRoot currentTime =
     (if \<not> verifyRangeProof (rangeProof bundle) (voteCommitment bundle)
        then ReturnsFalseAt RangeProofCheck
      else if \<not> verifyMembershipProof (membershipProof bundle) voterRegistryRoot
        then ReturnsFalseAt MembershipProofCheck
      else if \<not> verifyNullifierStructure bundle
        then ReturnsFalseAt StructureCheck
      else if \<bar>currentTime - timestamp bundle\<bar> > 3600000
        then ReturnsFalseAt TimestampCheck
      else ReturnsTrue)"

definition verifyNullifierProof ::
  "SecureNullifierProof \<Rightarrow> string \<Rightarrow> string \<Rightarrow> int \<Rightarrow> bool" where
  "verifyNullifierProof bundle proposalId voterRegistryRoot currentTime =
     (verifyNullifierProof_outcome bundle proposalId voterRegistryRoot currentTime = ReturnsTrue)"

record UniquenessCheck =
  isUnique :: bool
  conflictDetected :: bool

definition checkNullifierUniqueness :: "string \<Rightarrow> string set \<Rightarrow> UniquenessCheck" where
  "checkNullifierUniqueness n existingNullifiers =
     \<lparr>isUnique = (n \<notin> existingNullifiers), conflictDetected = \<not> (n \<notin> existingNullifiers)\<rparr>"

text \<open>
  The registry. A JavaScript \<open>Map\<close> iterates in insertion order and \<open>updateMerkleTree\<close>
  reads the keys in that order, so the map is a list of pairs; \<open>map_set\<close> is
  \<open>Map.prototype.set\<close>.
\<close>

record SecureNullifierRegistry =
  nullifiers :: "(string \<times> SecureNullifierProof) list"
  merkleTree :: "string list"
  registryRoot :: string

definition new_SecureNullifierRegistry :: SecureNullifierRegistry where
  "new_SecureNullifierRegistry = \<lparr>nullifiers = [], merkleTree = [], registryRoot = []\<rparr>"

fun map_set :: "'k \<Rightarrow> 'v \<Rightarrow> ('k \<times> 'v) list \<Rightarrow> ('k \<times> 'v) list" where
  "map_set k v [] = [(k, v)]"
| "map_set k v ((k', v') # kvs) =
     (if k' = k then (k, v) # kvs else (k', v') # map_set k v kvs)"

text \<open>
  One level of \<open>computeMerkleRoot\<close>: the loop over pairs of leaves, where
  \<open>leaves[i + 1] || left\<close> is \<open>left\<close> for a missing and for an empty right leaf.
\<close>

fun merkle_level :: "string list \<Rightarrow> string list" where
  "merkle_level [] = []"
| "merkle_level [left] = [SHA256 (left @ left)]"
| "merkle_level (left # right # rest) =
     SHA256 (left @ (if right = [] then left else right)) # merkle_level rest"

lemma length_merkle_level: "length (merkle_level leaves) \<le> length leaves"
  by (induction leaves rule: merkle_level.induct) auto

function computeMerkleRoot :: "string list \<Rightarrow> string" where
  "computeMerkleRoot [] = []"
| "computeMerkleRoot [leaf] = leaf"
| "computeMerkleRoot (l1 # l2 # rest) = computeMerkleRoot (merkle_level (l1 # l2 # rest))"
  by pat_completeness auto
termination
proof (relation "measure length")
  show "wf (measure length)" by simp
next
  fix l1 l2 :: string and rest :: "string list"
  have "length (merkle_level rest) \<le> length rest"
    by (rule length_merkle_level)
  then show "(merkle_level (l1 # l2 # rest), l1 # l2 # rest) \<in> measure length"
    by simp
qed

definition updateMerkleTree :: "SecureNullifierRegistry \<Rightarrow> SecureNullifierRegistry" where
  "updateMerkleTree reg =
     reg\<lparr>merkleTree := map fst (nullifiers reg),
         registryRoot := computeMerkleRoot (map fst (nullifiers reg))\<rparr>"

text \<open>\<open>addNullifier\<close>; the last argument is the time at which the verifier reads the clock.\<close>

definition addNullifier ::
  "SecureNullifierRegistry \<Rightarrow> SecureNullifierProof \<Rightarrow> string \<Rightarrow> int
     \<Rightarrow> bool \<times> SecureNullifierRegistry" where
  "addNullifier reg bundle proposalId now =
     (if \<not> verifyNullifierProof bundle proposalId (registryRoot reg) now then (False, reg)
      else if \<not> isUnique (checkNullifierUniqueness (nullifier bundle)
                              (set (map fst (nullifiers reg)))) then (False, reg)
      else (True,
            updateMerkleTree
              (reg\<lparr>nullifiers := map_set (nullifier bundle) bundle (nullifiers reg)\<rparr>)))"

definition verifyRegistryIntegrity :: "SecureNullifierRegistry \<Rightarrow> bool" where
  "verifyRegistryIntegrity reg = list_all (\<lambda>(n, p). nullifier p = n) (nullifiers reg)"

text \<open>A sequence of submissions \<open>(bundle, proposalId, time)\<close> on the same registry.\<close>

fun addNullifiers ::
  "SecureNullifierRegistry \<Rightarrow> (SecureNullifierProof \<times> string \<times> int) list
     \<Rightarrow> SecureNullifierRegistry" where
  "addNullifiers reg [] = reg"
| "addNullifiers reg ((bundle, proposalId, now) # rest) =
     addNullifiers (snd (addNullifier reg bundle proposalId now)) rest"

section \<open>ZKProofGenerator (src/zkProofGenerator.ts) and the mock Poseidon (lib/midnight-mock.ts)\<close>

record VoteProofInputs =
  zk_proposalId :: string
  zk_voteChoice :: int
  zk_voterSecret :: string
  zk_voterNullifier :: string
  zk_merkleRoot :: "string option"
  zk_merklePath :: "string list option"
  zk_merkleIndices :: "int list option"

record VoteProofOutputs =
  nullifierHash :: string
  zk_voteCommitment :: string
  zk_proof :: string

text \<open>
  The four errors of \<open>validateInputs\<close>, and the one error that \<open>generateVoteProof\<close>
  throws in their place from its \<open>catch\<close>.
\<close>

datatype zk_error =
  ProposalIdRequired | VoteChoiceInvalid | VoterSecretRequired | VoterNullifierRequired
  | ProofGenerationFailed

text \<open>\<open>!s\<close> on a string is true for the empty string only.\<close>

definition validateInputs :: "VoteProofInputs \<Rightarrow> zk_error + unit" where
  "validateInputs inputs =
     (if zk_proposalId inputs = [] then Inl ProposalIdRequired
      else if zk_voteChoice inputs \<noteq> 0 \<and> zk_voteChoice inputs \<noteq> 1 then Inl VoteChoiceInvalid
      else if zk_voterSecret inputs = [] then Inl VoterSecretRequired
      else if zk_voterNullifier inputs = [] then Inl VoterNullifierRequired
      else Inr ())"

text \<open>A \<open>Field\<close> of the mock is the string of its value; \<open>Poseidon.hash\<close> is the string hash.\<close>

definition Poseidon_hash :: "string list \<Rightarrow> string" where
  "Poseidon_hash inputs = number_toString \<bar>string_hash32 (concat inputs)\<bar>"

definition computeNullifier :: "string \<Rightarrow> string \<Rightarrow> string \<Rightarrow> string" where
  "computeNullifier voterSecret_value nullifier_value proposalId =
     Poseidon_hash [voterSecret_value, nullifier_value, proposalId]"

definition computeVoteCommitment :: "string \<Rightarrow> int \<Rightarrow> string \<Rightarrow> string" where
  "computeVoteCommitment proposalId voteChoice nullifier_value =
     Poseidon_hash [proposalId, number_toString voteChoice, number_toString 1, nullifier_value]"

text \<open>
  \<open>generateVoteProof\<close>. Its last step, \<open>generateZKProof\<close>, serialises the inputs with
  \<open>JSON.stringify\<close>, \<open>Buffer\<close>, \<open>Date.now()\<close> and \<open>Math.random()\<close>; that string is
  the result of the first argument here.
\<close>

definition generateVoteProof ::
  "(VoteProofInputs \<Rightarrow> string \<Rightarrow> string \<Rightarrow> string) \<Rightarrow> VoteProofInputs
     \<Rightarrow> zk_error + VoteProofOutputs" where
  "generateVoteProof generateZKProof inputs =
     (case validateInputs inputs of
        Inl e \<Rightarrow> Inl ProofGenerationFailed
      | Inr u \<Rightarrow>
          Inr \<lparr>nullifierHash =
                 computeNullifier (zk_voterSecret inputs) (zk_voterNullifier inputs)
                   (zk_proposalId inputs),
               zk_voteCommitment =
                 computeVoteCommitment (zk_proposalId inputs) (zk_voteChoice inputs)
                   (zk_voterNullifier inputs),
               zk_proof =
                 generateZKProof inputs
                   (computeNullifier (zk_voterSecret inputs) (zk_voterNullifier inputs)
                      (zk_proposalId inputs))
                   (computeVoteCommitment (zk_proposalId inputs) (zk_voteChoice inputs)
                      (zk_voterNullifier inputs))\<rparr>)"

section \<open>Concrete inputs\<close>

text \<open>
  A bundle whose six digests are 64 hexadecimal digits each, as \<open>generateSecureNullifier\<close>
  produces them, with a chosen timestamp; the votes of the voter \<open>alice\<close> and of a
  voter with a given secret; a registry as the constructor leaves it but for a root that
  is not empty.
\<close>

definition sample_bundle :: "int \<Rightarrow> SecureNullifierProof" where
  "sample_bundle ts =
     \<lparr>nullifier = ''13ac89a762356aed906c5d404ef993aaa20a409f6a7d7c1175aff994bf64c054'',
      nullifierProof = ''95d8fa20205b2d80669a84d9820dd49af5e564dfbd90271d675bc32146d5ddbc'',
      voteCommitment = ''bc101c094ca847422b4781c6ac27b958d744f9044ef6b5d4b2f9e0af356b9b49'',
      rangeProof = ''544de7dbbaa26ea1094db4f052cd14d555191a8441ce0c441973a4d8364a0750'',
      membershipProof = ''8cf7ae45c0a0c575ce870e718495da9073791bb67204b16af2f63078f1ab3aaf'',
      timestamp = ts,
      nonce = ''78377b525757b494427f89014f97d79928f3938d14eb51e20fb5dec9834eb304''\<rparr>"

definition sample_credentials :: SecureVoterCredentials where
  "sample_credentials =
     \<lparr>voterSecret = ''95d8fa20205b2d80669a84d9820dd49af5e564dfbd90271d675bc32146d5ddbc'',
      voterCommitment = ''bc101c094ca847422b4781c6ac27b958d744f9044ef6b5d4b2f9e0af356b9b49'',
      merkleIndex = 0,
      merkleProof = [],
      voterPublicKey = ''544de7dbbaa26ea1094db4f052cd14d555191a8441ce0c441973a4d8364a0750'',
      voterPrivateKey = ''8cf7ae45c0a0c575ce870e718495da9073791bb67204b16af2f63078f1ab3aaf''\<rparr>"

definition alice_vote :: "string \<Rightarrow> int \<Rightarrow> VoteAttempt" where
  "alice_vote proposalId choice =
     \<lparr>va_proposalId = proposalId, va_voterSecret = ''alice'',
      va_voteChoice = choice, va_timestamp = 1700000000000\<rparr>"

definition vote_by :: "string \<Rightarrow> string \<Rightarrow> int \<Rightarrow> VoteAttempt" where
  "vote_by secret proposalId choice =
     \<lparr>va_proposalId = proposalId, va_voterSecret = secret,
      va_voteChoice = choice, va_timestamp = 1700000000000\<rparr>"

definition seeded_registry :: SecureNullifierRegistry where
  "seeded_registry = \<lparr>nullifiers = [], merkleTree = [], registryRoot = ''test_registry_root''\<rparr>"

definition sample_inputs :: "string \<Rightarrow> int \<Rightarrow> VoteProofInputs" where
  "sample_inputs proposalId choice =
     \<lparr>zk_proposalId = proposalId, zk_voteChoice = choice,
      zk_voterSecret = ''secret'', zk_voterNullifier = ''nullifier'',
      zk_merkleRoot = None, zk_merklePath = None, zk_merkleIndices = None\<rparr>"

section \<open>The ledger's consistency\<close>

text \<open>
  What \<open>attemptVote\<close> maintains between its two stores: the history holds every
  nullifier once, and every nullifier of the history is a key of the map.
\<close>

definition ledger_consistent :: "DoubleVotePreventionSystem \<Rightarrow> bool" where
  "ledger_consistent sys \<longleftrightarrow>
     distinct (map nr_nullifier (nullifierHistory sys)) \<and>
     set (map nr_nullifier (nullifierHistory sys)) \<subseteq> dom (usedNullifiers sys)"

section \<open>The verifier\<close>

lemma verifyNullifierProof_iff:
  "verifyNullifierProof b p r now \<longleftrightarrow>
     verifyRangeProof (rangeProof b) (voteCommitment b) \<and>
     verifyMembershipProof (membershipProof b) r \<and>
     verifyNullifierStructure b \<and>
     \<bar>now - timestamp b\<bar> \<le> 3600000"
  by (simp add: verifyNullifierProof_def verifyNullifierProof_outcome_def)

lemma sample_bundle_checks:
  "verifyRangeProof (rangeProof (sample_bundle ts)) (voteCommitment (sample_bundle ts))"
  "verifyMembershipProof (membershipProof (sample_bundle ts)) ''test_registry_root''"
  "0 < ts \<Longrightarrow> verifyNullifierStructure (sample_bundle ts)"
  by (simp_all add: sample_bundle_def verifyRangeProof_def verifyMembershipProof_def
        verifyNullifierStructure_def)

text \<open>
  The verifier reads the widths of the six digests, the timestamp, the clock and whether
  the root is empty, and nothing else: neither the contents of a digest nor the proposal.
\<close>

lemma verifier_reads_widths_only:
  assumes "length (nullifier b') = length (nullifier b)"
      and "length (nullifierProof b') = length (nullifierProof b)"
      and "length (voteCommitment b') = length (voteCommitment b)"
      and "length (rangeProof b') = length (rangeProof b)"
      and "length (membershipProof b') = length (membershipProof b)"
      and "length (nonce b') = length (nonce b)"
      and "timestamp b' = timestamp b"
      and "r' = [] \<longleftrightarrow> r = []"
  shows "verifyNullifierProof b' p' r' now = verifyNullifierProof b p r now"
  using assms
  by (simp add: verifyNullifierProof_iff verifyRangeProof_def verifyMembershipProof_def
        verifyNullifierStructure_def)

section \<open>Evaluating SHA-256\<close>

text \<open>
  Equations that let the simplifier run the hash on a literal: the wrap-around and the
  rotation without a division, and the recursions on numerals.
\<close>

lemma wrap32_eval:
  "wrap32 x =
     (if 0 \<le> x \<and> x < 4294967296 then x
      else if 4294967296 \<le> x \<and> x < 8589934592 then x - 4294967296
      else x mod 4294967296)"
proof -
  have "x mod 4294967296 = x - 4294967296" if "4294967296 \<le> x" "x < 8589934592"
  proof -
    have "(x - 4294967296) mod 4294967296 = x - 4294967296"
      using that by (intro mod_pos_pos_trivial) auto
    then show ?thesis
      by (metis mod_diff_right_eq mod_self diff_zero)
  qed
  then show ?thesis
    by (simp add: wrap32_def)
qed

lemma rotr_eval: "rotr n x = drop_bit n x + (x - drop_bit n x * 2 ^ n) * 2 ^ (32 - n)"
  by (simp add: rotr_def drop_bit_eq_div minus_div_mult_eq_mod)

lemma shr_eval: "shr n x = drop_bit n x"
  by (simp add: shr_def drop_bit_eq_div)

lemma replicate_numeral: "replicate (numeral k) x = x # replicate (pred_numeral k) x"
  by (simp add: numeral_eq_Suc)

lemma schedule_numeral:
  "schedule (numeral k) ws = schedule (pred_numeral k) (next_word ws # ws)"
  by (simp add: numeral_eq_Suc)

lemmas sha256_eval =
  SHA256_def pad_def be_bytes8_def replicate_numeral compress_def schedule_numeral
  next_word_def K256_def H256_def add32_def wrap32_eval rotr_eval shr_eval
  Ch_def Maj_def Sigma0_def Sigma1_def sigma0_def sigma1_def hex_word_def digit_char_def

text \<open>The test vector of the standard for the message \<open>abc\<close>.\<close>

lemma SHA256_abc:
  "SHA256 ''abc'' = ''ba7816bf8f01cfea414140de5dae2223b00361a396177a9cb410ff61f20015ad''"
  by (simp add: sha256_eval)

text \<open>The two-block test vector of the standard.\<close>

lemma SHA256_two_blocks:
  "SHA256 ''abcdbcdecdefdefgefghfghighijhijkijkljklmklmnlmnomnopnopq'' =
     ''248d6a61d20638b8e5c026930c3e6039a33ce45964ff2167f6ecedd419db06c1''"
  by (simp add: sha256_eval)

lemma length_hex_word: "length (hex_word w) = 8"
  by (simp add: hex_word_def)

lemma length_state_words: "length (state_words st) = 8"
  by (induction st rule: state_words.induct) simp

lemma length_concat_hex: "length (concat (map hex_word ws)) = 8 * length ws"
  by (induction ws) (simp_all add: length_hex_word)

lemma length_SHA256: "length (SHA256 s) = 64"
  by (simp add: SHA256_def length_concat_hex length_state_words)

section \<open>The ledger of DoubleVotePreventionSystem\<close>

lemma ledger_consistent_new: "ledger_consistent new_DoubleVotePreventionSystem"
  by (simp add: ledger_consistent_def new_DoubleVotePreventionSystem_def)

lemma ledger_consistent_attemptVote:
  "ledger_consistent sys \<Longrightarrow> ledger_consistent (snd (attemptVote sys v))"
  by (auto simp: ledger_consistent_def attemptVote_def split: option.splits)

lemma ledger_consistent_attemptVotes:
  "ledger_consistent sys \<Longrightarrow> ledger_consistent (attemptVotes sys vs)"
  by (induction vs arbitrary: sys) (simp_all add: ledger_consistent_attemptVote)

lemma attemptVote_keeps_used:
  "usedNullifiers sys n = Some r \<Longrightarrow> usedNullifiers (snd (attemptVote sys v)) n = Some r"
  by (auto simp: attemptVote_def split: option.splits)

lemma attemptVotes_keeps_used:
  "usedNullifiers sys n = Some r \<Longrightarrow> usedNullifiers (attemptVotes sys vs) n = Some r"
  by (induction vs arbitrary: sys) (simp_all add: attemptVote_keeps_used)

lemma attemptVote_success_used:
  "success (fst (attemptVote sys v)) \<Longrightarrow>
     \<exists>r. usedNullifiers (snd (attemptVote sys v)) (ar_nullifier (fst (attemptVote sys v))) = Some r"
  by (auto simp: attemptVote_def split: option.splits)

lemma attemptVote_used_rejects:
  "usedNullifiers sys (generateNullifier (va_voterSecret v) (va_proposalId v)) = Some r \<Longrightarrow>
     attemptVote sys v =
       (\<lparr>success = False,
         ar_nullifier = generateNullifier (va_voterSecret v) (va_proposalId v),
         ar_reason = Some ''Double voting detected'',
         previousVote = Some r\<rparr>, sys)"
  by (simp add: attemptVote_def)

section \<open>The registry\<close>

lemma keys_map_set: "fst ` set (map_set k v kvs) = insert k (fst ` set kvs)"
proof (induction kvs)
  case Nil
  show ?case by simp
next
  case (Cons kv kvs)
  obtain k' v' where kv: "kv = (k', v')" by (cases kv)
  show ?case
  proof (cases "k' = k")
    case True
    then show ?thesis by (simp add: kv)
  next
    case False
    then show ?thesis using Cons.IH by (simp add: kv insert_commute)
  qed
qed

lemma distinct_map_set:
  "distinct (map fst kvs) \<Longrightarrow> distinct (map fst (map_set k v kvs))"
proof (induction kvs)
  case Nil
  show ?case by simp
next
  case (Cons kv kvs)
  obtain k' v' where kv: "kv = (k', v')" by (cases kv)
  show ?case
  proof (cases "k' = k")
    case True
    then show ?thesis using Cons.prems by (simp add: kv)
  next
    case False
    then show ?thesis using Cons by (simp add: kv keys_map_set)
  qed
qed

lemma addNullifier_keeps_distinct:
  "distinct (map fst (nullifiers reg)) \<Longrightarrow>
     distinct (map fst (nullifiers (snd (addNullifier reg b p now))))"
  by (simp add: addNullifier_def updateMerkleTree_def distinct_map_set)

lemma addNullifiers_keeps_distinct:
  "distinct (map fst (nullifiers reg)) \<Longrightarrow>
     distinct (map fst (nullifiers (addNullifiers reg subs)))"
  by (induction reg subs rule: addNullifiers.induct) (simp_all add: addNullifier_keeps_distinct)

lemma addNullifier_keeps_key:
  "n \<in> fst ` set (nullifiers reg) \<Longrightarrow>
     n \<in> fst ` set (nullifiers (snd (addNullifier reg b p now)))"
  by (simp add: addNullifier_def updateMerkleTree_def keys_map_set)

lemma addNullifiers_keeps_key:
  "n \<in> fst ` set (nullifiers reg) \<Longrightarrow> n \<in> fst ` set (nullifiers (addNullifiers reg subs))"
  by (induction reg subs rule: addNullifiers.induct) (simp_all add: addNullifier_keeps_key)

lemma addNullifier_accept_key:
  "fst (addNullifier reg b p now) \<Longrightarrow>
     nullifier b \<in> fst ` set (nullifiers (snd (addNullifier reg b p now)))"
  by (simp add: addNullifier_def updateMerkleTree_def keys_map_set split: if_splits)

lemma addNullifier_key_rejects:
  "nullifier b \<in> fst ` set (nullifiers reg) \<Longrightarrow> addNullifier reg b p now = (False, reg)"
  by (simp add: addNullifier_def checkNullifierUniqueness_def)

lemma addNullifier_new_registry:
  "addNullifier new_SecureNullifierRegistry b p now = (False, new_SecureNullifierRegistry)"
  by (simp add: addNullifier_def new_SecureNullifierRegistry_def verifyNullifierProof_iff
        verifyMembershipProof_def)

lemma addNullifiers_new_registry:
  "addNullifiers new_SecureNullifierRegistry subs = new_SecureNullifierRegistry"
  by (induction subs) (auto simp: addNullifier_new_registry)

text \<open>
  Every digest that \<open>generateSecureNullifier\<close> produces is 64 characters wide, so a
  generated bundle passes the verifier whenever its nonce is 64 wide, the root is not
  empty and the clock is within the hour, for whatever proposal it is submitted.
\<close>

lemma length_poseidonHash: "length (poseidonHash inputs) = 64"
  by (simp add: poseidonHash_def modularReduction_def length_SHA256)

lemma length_pedersenCommit: "length (pedersenCommit v bl) = 64"
  by (simp add: pedersenCommit_def length_SHA256)

lemma generated_bundle_verifies:
  assumes "generateSecureNullifier c p v n t bl = Inr b"
      and "length n = 64" and "0 < t" and "root \<noteq> []" and "\<bar>now - t\<bar> \<le> 3600000"
  shows "verifyNullifierProof b p' root now"
proof -
  from assms(1) have b:
    "b = \<lparr>nullifier = poseidonHash (concatenateInputs
               [voterSecret c, p, n, number_toString t]),
          nullifierProof = generateNullifierProof c p
              (poseidonHash (concatenateInputs [voterSecret c, p, n, number_toString t])) n,
          voteCommitment = pedersenCommit (number_toString v) bl,
          rangeProof = generateRangeProof v bl,
          membershipProof = generateMembershipProof c,
          timestamp = t,
          nonce = n\<rparr>"
    by (simp add: generateSecureNullifier_def Let_def split: if_splits)
  show ?thesis
    using assms(2-5)
    by (simp add: b verifyNullifierProof_iff verifyRangeProof_def verifyMembershipProof_def
          verifyNullifierStructure_def generateNullifierProof_def generateRangeProof_def
          generateMembershipProof_def length_poseidonHash length_pedersenCommit)
qed

text \<open>
  Two bundles of the same credential for the same proposal, drawn with different nonces,
  are both accepted by a registry whose root is not empty, unless their nullifiers
  collide: the registry compares nullifiers only.
\<close>

lemma second_vote_same_credential_accepted:
  assumes "generateSecureNullifier c p v1 n1 t1 bl1 = Inr b1"
      and "generateSecureNullifier c p v2 n2 t2 bl2 = Inr b2"
      and "length n1 = 64" and "length n2 = 64" and "0 < t1" and "0 < t2"
      and "\<bar>now1 - t1\<bar> \<le> 3600000" and "\<bar>now2 - t2\<bar> \<le> 3600000"
      and "nullifiers reg = []" and "registryRoot reg \<noteq> []"
      and "nullifier b2 \<noteq> nullifier b1"
  shows "fst (addNullifier reg b1 p now1) \<and>
         fst (addNullifier (snd (addNullifier reg b1 p now1)) b2 p now2)"
proof -
  have v1: "verifyNullifierProof b1 p (registryRoot reg) now1"
    using assms by (intro generated_bundle_verifies [of c p v1 n1 t1 bl1]) auto
  define reg1 where
    "reg1 = reg\<lparr>nullifiers := [(nullifier b1, b1)],
                 merkleTree := [nullifier b1], registryRoot := nullifier b1\<rparr>"
  have first: "addNullifier reg b1 p now1 = (True, reg1)"
    using v1 assms(9)
    by (simp add: reg1_def addNullifier_def checkNullifierUniqueness_def updateMerkleTree_def)
  have "length (nullifier b1) = 64"
    using v1 by (simp add: verifyNullifierProof_iff verifyNullifierStructure_def)
  then have "nullifier b1 \<noteq> []"
    by auto
  then have v2: "verifyNullifierProof b2 p (nullifier b1) now2"
    using assms by (intro generated_bundle_verifies [of c p v2 n2 t2 bl2]) auto
  have second: "fst (addNullifier reg1 b2 p now2)"
    using v2 assms(11)
    by (simp add: reg1_def addNullifier_def checkNullifierUniqueness_def)
  show ?thesis
    by (simp add: first second)
qed

section \<open>The nullifiers of DoubleVotePreventionSystem\<close>

text \<open>
  For one secret, two proposals give the same hash input only when they are the same
  proposal. So the nullifiers of one voter for two proposals differ unless SHA-256
  collides on the two inputs, and then the voter's vote on the one proposal does not stand
  in the way of the vote on the other.
\<close>

lemma nullifier_input_inject:
  "secret @ '':'' @ A @ '':nullifier_salt_2024'' = secret @ '':'' @ B @ '':nullifier_salt_2024''
     \<longleftrightarrow> A = B"
  by simp

lemma generateNullifier_distinct:
  assumes "A \<noteq> B"
      and "inj_on SHA256 {secret @ '':'' @ A @ '':nullifier_salt_2024'',
                          secret @ '':'' @ B @ '':nullifier_salt_2024''}"
  shows "generateNullifier secret A \<noteq> generateNullifier secret B"
proof
  assume "generateNullifier secret A = generateNullifier secret B"
  then have "SHA256 (secret @ '':'' @ A @ '':nullifier_salt_2024'') =
             SHA256 (secret @ '':'' @ B @ '':nullifier_salt_2024'')"
    by (simp add: generateNullifier_def)
  with assms(2) have
    "secret @ '':'' @ A @ '':nullifier_salt_2024'' = secret @ '':'' @ B @ '':nullifier_salt_2024''"
    by (auto dest: inj_onD)
  with assms(1) show False
    by (simp add: nullifier_input_inject)
qed

lemma cross_scope_vote_accepted:
  assumes "A \<noteq> B"
      and "inj_on SHA256 {secret @ '':'' @ A @ '':nullifier_salt_2024'',
                          secret @ '':'' @ B @ '':nullifier_salt_2024''}"
      and "generateNullifier secret B \<notin> dom (usedNullifiers sys)"
      and "va_voterSecret va = secret" and "va_proposalId va = A"
      and "va_voterSecret vb = secret" and "va_proposalId vb = B"
  shows "success (fst (attemptVote (snd (attemptVote sys va)) vb))"
proof -
  have "generateNullifier secret A \<noteq> generateNullifier secret B"
    using assms(1,2) by (rule generateNullifier_distinct)
  then show ?thesis
    using assms(3-7) by (auto simp: attemptVote_def split: option.splits)
qed

text \<open>
  The separator of the hash input is a colon, and nothing keeps a colon out of a secret
  or a proposal: the voter \<open>a:b\<close> on the proposal \<open>c\<close> and the voter \<open>a\<close> on the
  proposal \<open>b:c\<close> hash the same string.
\<close>

lemma nullifier_delimiter_collision:
  "generateNullifier ''a:b'' ''c'' = generateNullifier ''a'' ''b:c''"
  by (simp add: generateNullifier_def)

text \<open>Two hashes, computed.\<close>

lemma SHA256_a_x:
  "SHA256 ''a:x:nullifier_salt_2024'' =
     ''94e0dc7aadb52537eebd29428ca35eeedbf2ffdaaf36ccc1b03c8720cead6081''"
  by (simp add: sha256_eval)

lemma SHA256_a_b_c:
  "SHA256 ''a:b:c:nullifier_salt_2024'' =
     ''b286e9b7210d519ebe7af4ff48dddfd384b48ffe9d8c9d8ee3fa81017dbb1d65''"
  by (simp add: sha256_eval)

text \<open>On a new system the voter \<open>a\<close> votes on \<open>x\<close> and then on \<open>b:c\<close>: both accepted.\<close>

lemma cross_scope_vote_accepted_new_system:
  "success (fst (attemptVote
      (snd (attemptVote new_DoubleVotePreventionSystem (vote_by ''a'' ''x'' 1)))
      (vote_by ''a'' ''b:c'' 0)))"
proof -
  have ne: "''x'' \<noteq> ''b:c''"
    by simp
  have inj: "inj_on SHA256 {''a'' @ '':'' @ ''x'' @ '':nullifier_salt_2024'',
                            ''a'' @ '':'' @ ''b:c'' @ '':nullifier_salt_2024''}"
    by (simp add: SHA256_a_x SHA256_a_b_c)
  have new: "generateNullifier ''a'' ''b:c''
      \<notin> dom (usedNullifiers new_DoubleVotePreventionSystem)"
    by (simp add: new_DoubleVotePreventionSystem_def)
  from cross_scope_vote_accepted [OF ne inj new,
      of "vote_by ''a'' ''x'' 1" "vote_by ''a'' ''b:c'' 0"]
  show ?thesis
    by (simp add: vote_by_def)
qed

section \<open>The claims\<close>

subsection \<open>At most once per scope\<close>

text \<open>
  C1. No sequence of submissions leaves two entries with the same nullifier in a ledger,
  and once a submission has been accepted, every later submission with the same
  nullifier and proposal is rejected and leaves the ledger as it was, whatever was
  submitted in between. For \<open>DoubleVotePreventionSystem\<close> the rejection carries the reason
  \<open>Double voting detected\<close>; \<open>addNullifier\<close> returns \<open>false\<close>. Both ledgers are keyed by
  the nullifier alone, so the same holds across proposals. The four parts: the history of
  a new system after any votes; a vote after an accepted one; the keys of a registry after
  any submissions; a submission after an accepted one.
\<close>

theorem at_most_once_per_scope:
  "distinct (map nr_nullifier
      (nullifierHistory (attemptVotes new_DoubleVotePreventionSystem vs))) \<and>
   (success (fst (attemptVote sys v)) \<and>
    generateNullifier (va_voterSecret v') (va_proposalId v') = ar_nullifier (fst (attemptVote sys v)) \<and>
    va_proposalId v' = va_proposalId v \<longrightarrow>
      (\<exists>r. attemptVote (attemptVotes (snd (attemptVote sys v)) vs') v' =
         (\<lparr>success = False,
           ar_nullifier = ar_nullifier (fst (attemptVote sys v)),
           ar_reason = Some ''Double voting detected'',
           previousVote = Some r\<rparr>,
          attemptVotes (snd (attemptVote sys v)) vs'))) \<and>
   (distinct (map fst (nullifiers ini)) \<longrightarrow>
      distinct (map fst (nullifiers (addNullifiers ini subs)))) \<and>
   (fst (addNullifier reg b p now) \<and> nullifier b' = nullifier b \<longrightarrow>
      addNullifier (addNullifiers (snd (addNullifier reg b p now)) subs') b' p now' =
        (False, addNullifiers (snd (addNullifier reg b p now)) subs'))"
proof (intro conjI impI)
  show "distinct (map nr_nullifier
      (nullifierHistory (attemptVotes new_DoubleVotePreventionSystem vs)))"
    using ledger_consistent_attemptVotes [OF ledger_consistent_new, of vs]
    by (simp add: ledger_consistent_def)
next
  assume a: "success (fst (attemptVote sys v)) \<and>
    generateNullifier (va_voterSecret v') (va_proposalId v') = ar_nullifier (fst (attemptVote sys v)) \<and>
    va_proposalId v' = va_proposalId v"
  then obtain r where
    "usedNullifiers (snd (attemptVote sys v)) (ar_nullifier (fst (attemptVote sys v))) = Some r"
    using attemptVote_success_used by blast
  then have "usedNullifiers (attemptVotes (snd (attemptVote sys v)) vs')
      (ar_nullifier (fst (attemptVote sys v))) = Some r"
    by (rule attemptVotes_keeps_used)
  moreover from a have n:
    "generateNullifier (va_voterSecret v') (va_proposalId v') = ar_nullifier (fst (attemptVote sys v))"
    by blast
  ultimately have "usedNullifiers (attemptVotes (snd (attemptVote sys v)) vs')
      (generateNullifier (va_voterSecret v') (va_proposalId v')) = Some r"
    by simp
  from attemptVote_used_rejects [OF this] n
  show "\<exists>r. attemptVote (attemptVotes (snd (attemptVote sys v)) vs') v' =
         (\<lparr>success = False,
           ar_nullifier = ar_nullifier (fst (attemptVote sys v)),
           ar_reason = Some ''Double voting detected'',
           previousVote = Some r\<rparr>,
          attemptVotes (snd (attemptVote sys v)) vs')"
    by auto
next
  assume "distinct (map fst (nullifiers ini))"
  then show "distinct (map fst (nullifiers (addNullifiers ini subs)))"
    by (rule addNullifiers_keeps_distinct)
next
  assume a: "fst (addNullifier reg b p now) \<and> nullifier b' = nullifier b"
  then have "nullifier b' \<in> fst ` set (nullifiers (snd (addNullifier reg b p now)))"
    using addNullifier_accept_key [of reg b p now] by simp
  then have "nullifier b' \<in>
      fst ` set (nullifiers (addNullifiers (snd (addNullifier reg b p now)) subs'))"
    by (rule addNullifiers_keeps_key)
  then show "addNullifier (addNullifiers (snd (addNullifier reg b p now)) subs') b' p now' =
        (False, addNullifiers (snd (addNullifier reg b p now)) subs')"
    by (rule addNullifier_key_rejects)
qed

text \<open>
  Alice votes on \<open>A\<close>, then on \<open>B\<close>, then on \<open>A\<close> again: the third vote is rejected
  and the history holds two nullifiers. The same bundle is submitted twice, five seconds
  apart, to a registry whose root is not empty: the second submission is rejected. (A
  registry fresh from its constructor accepts nothing, see \<open>addNullifier_new_registry\<close>,
  so from there the premise of the fourth part never holds.)
\<close>

theorem at_most_once_per_scope_witness:
  "distinct (map nr_nullifier (nullifierHistory
      (attemptVotes new_DoubleVotePreventionSystem
         [alice_vote ''A'' 1, alice_vote ''B'' 1, alice_vote ''A'' 0]))) \<and>
   \<not> success (fst (attemptVote
      (attemptVotes (snd (attemptVote new_DoubleVotePreventionSystem (alice_vote ''A'' 1)))
         [alice_vote ''B'' 1])
      (alice_vote ''A'' 0))) \<and>
   distinct (map fst (nullifiers
      (addNullifiers seeded_registry
         [(sample_bundle 1700000000000, ''p1'', 1700000000000),
          (sample_bundle 1700000005000, ''p1'', 1700000005000)]))) \<and>
   addNullifier
     (snd (addNullifier seeded_registry (sample_bundle 1700000000000) ''p1'' 1700000000000))
     (sample_bundle 1700000005000) ''p1'' 1700000005000 =
   (False, snd (addNullifier seeded_registry (sample_bundle 1700000000000) ''p1'' 1700000000000))"
proof -
  have h1: "success (fst (attemptVote new_DoubleVotePreventionSystem (alice_vote ''A'' 1))) \<and>
        generateNullifier (va_voterSecret (alice_vote ''A'' 0)) (va_proposalId (alice_vote ''A'' 0))
          = ar_nullifier (fst (attemptVote new_DoubleVotePreventionSystem (alice_vote ''A'' 1))) \<and>
        va_proposalId (alice_vote ''A'' 0) = va_proposalId (alice_vote ''A'' 1)"
    by (simp add: attemptVote_def new_DoubleVotePreventionSystem_def alice_vote_def)
  have h2: "fst (addNullifier seeded_registry (sample_bundle 1700000000000) ''p1'' 1700000000000) \<and>
        nullifier (sample_bundle 1700000005000) = nullifier (sample_bundle 1700000000000)"
    by (simp add: addNullifier_def verifyNullifierProof_iff sample_bundle_checks
          seeded_registry_def checkNullifierUniqueness_def)
       (simp add: sample_bundle_def)
  have h3: "distinct (map fst (nullifiers seeded_registry))"
    by (simp add: seeded_registry_def)
  from at_most_once_per_scope [where sys = new_DoubleVotePreventionSystem
      and v = "alice_vote ''A'' 1" and v' = "alice_vote ''A'' 0" and vs' = "[alice_vote ''B'' 1]"
      and reg = seeded_registry and b = "sample_bundle 1700000000000" and p = "''p1''"
      and now = 1700000000000 and b' = "sample_bundle 1700000005000" and subs' = "[]"
      and now' = 1700000005000
      and vs = "[alice_vote ''A'' 1, alice_vote ''B'' 1, alice_vote ''A'' 0]"
      and ini = seeded_registry
      and subs = "[(sample_bundle 1700000000000, ''p1'', 1700000000000),
                   (sample_bundle 1700000005000, ''p1'', 1700000005000)]"]
    h1 h2 h3
  show ?thesis
    by auto
qed

subsection \<open>Double-vote prevention per credential in the secure registry\<close>

text \<open>
  C2. The claim is that the registry accepts the first bundle of a credential for a
  proposal and rejects a second, freshly drawn one. What the code does: a registry as
  \<open>new SecureNullifierRegistry()\<close> leaves it has the empty root, \<open>verifyMembershipProof\<close>
  wants a root that is not empty, and the root changes only after an accepted
  submission. So the first vote is rejected, whatever the bundle, and so is every
  submission after it: the registry stays as it was constructed. (With a root that is not
  empty, \<open>second_vote_same_credential_accepted\<close> shows the second vote accepted.)
\<close>

theorem new_registry_rejects_first_vote:
  "addNullifier new_SecureNullifierRegistry b p now = (False, new_SecureNullifierRegistry) \<and>
   addNullifiers new_SecureNullifierRegistry subs = new_SecureNullifierRegistry"
  by (simp add: addNullifier_new_registry addNullifiers_new_registry)

subsection \<open>Cross-scope independence\<close>

text \<open>
  C3. The claim is that a voter whose vote on a proposal \<open>A\<close> was accepted is also
  accepted on another proposal \<open>B\<close>. The code hashes \<open>secret:proposal:salt\<close>, and the
  voter \<open>a:b\<close> on the proposal \<open>c\<close> gets the nullifier of the voter \<open>a\<close> on the
  proposal \<open>b:c\<close>. Below, on a new system, the voter \<open>a:b\<close> votes on \<open>c\<close>; then the
  voter \<open>a\<close> votes on \<open>x\<close> and is accepted; then the voter \<open>a\<close> votes on \<open>b:c\<close>, for
  the first time, and is rejected as a double vote, the previous vote reported being the
  vote of the other voter on \<open>c\<close>.
\<close>

theorem delimiter_collision_blocks_cross_scope_vote:
  "success (fst (attemptVote new_DoubleVotePreventionSystem (vote_by ''a:b'' ''c'' 1))) \<and>
   success (fst (attemptVote
      (snd (attemptVote new_DoubleVotePreventionSystem (vote_by ''a:b'' ''c'' 1)))
      (vote_by ''a'' ''x'' 1))) \<and>
   \<not> success (fst (attemptVote
      (snd (attemptVote
         (snd (attemptVote new_DoubleVotePreventionSystem (vote_by ''a:b'' ''c'' 1)))
         (vote_by ''a'' ''x'' 1)))
      (vote_by ''a'' ''b:c'' 1))) \<and>
   ar_reason (fst (attemptVote
      (snd (attemptVote
         (snd (attemptVote new_DoubleVotePreventionSystem (vote_by ''a:b'' ''c'' 1)))
         (vote_by ''a'' ''x'' 1)))
      (vote_by ''a'' ''b:c'' 1))) = Some ''Double voting detected'' \<and>
   map_option nr_proposalId (previousVote (fst (attemptVote
      (snd (attemptVote
         (snd (attemptVote new_DoubleVotePreventionSystem (vote_by ''a:b'' ''c'' 1)))
         (vote_by ''a'' ''x'' 1)))
      (vote_by ''a'' ''b:c'' 1)))) = Some ''c''"
  by (simp add: attemptVote_def new_DoubleVotePreventionSystem_def vote_by_def
        generateNullifier_def SHA256_a_x SHA256_a_b_c)

subsection \<open>Tamper detection\<close>

text \<open>
  C4. The claim is that a valid bundle with one byte of one field changed fails
  verification. The code compares widths only: the bundle below verifies, and it still
  verifies with the first character of its nullifier changed from \<open>1\<close> to \<open>0\<close>.
\<close>

theorem tampered_nullifier_verifies:
  "verifyNullifierProof (sample_bundle 1700000000000) ''p1'' ''test_registry_root''
       1700000000000 \<and>
   (sample_bundle 1700000000000)
      \<lparr>nullifier := ''03ac89a762356aed906c5d404ef993aaa20a409f6a7d7c1175aff994bf64c054''\<rparr>
     \<noteq> sample_bundle 1700000000000 \<and>
   verifyNullifierProof
     ((sample_bundle 1700000000000)
        \<lparr>nullifier := ''03ac89a762356aed906c5d404ef993aaa20a409f6a7d7c1175aff994bf64c054''\<rparr>)
     ''p1'' ''test_registry_root'' 1700000000000"
  by (simp add: sample_bundle_def verifyNullifierProof_def verifyNullifierProof_outcome_def
        verifyRangeProof_def verifyMembershipProof_def verifyNullifierStructure_def)

subsection \<open>Freshness boundary\<close>

text \<open>
  C5. With the one-hour window of 3600000 ms and the range, membership and structure
  checks holding, \<open>verifyNullifierProof\<close> accepts a bundle exactly when
  \<open>|now - timestamp| \<le> 3600000\<close>: a bundle stamped \<open>now - 3600000 - 1\<close> is rejected and
  one stamped \<open>now - 3600000 + 1\<close> is accepted.
\<close>

theorem freshness_boundary:
  assumes "verifyRangeProof (rangeProof b) (voteCommitment b)"
      and "verifyMembershipProof (membershipProof b) root"
      and "verifyNullifierStructure b"
  shows "(verifyNullifierProof b p root now \<longleftrightarrow> \<bar>now - timestamp b\<bar> \<le> 3600000) \<and>
         (timestamp b = now - 3600000 - 1 \<longrightarrow> \<not> verifyNullifierProof b p root now) \<and>
         (timestamp b = now - 3600000 + 1 \<longrightarrow> verifyNullifierProof b p root now)"
  using assms by (auto simp: verifyNullifierProof_iff)

text \<open>At the clock reading 1700003600000: one millisecond outside and inside the window.\<close>

theorem freshness_boundary_witness:
  "\<not> verifyNullifierProof (sample_bundle 1699999999999) ''p1'' ''test_registry_root''
       1700003600000 \<and>
   verifyNullifierProof (sample_bundle 1700000000001) ''p1'' ''test_registry_root''
       1700003600000"
proof -
  have old: "timestamp (sample_bundle 1699999999999) = 1700003600000 - 3600000 - 1"
    by (simp add: sample_bundle_def)
  have new: "timestamp (sample_bundle 1700000000001) = 1700003600000 - 3600000 + 1"
    by (simp add: sample_bundle_def)
  from freshness_boundary [OF sample_bundle_checks(1) sample_bundle_checks(2)
      sample_bundle_checks(3), of 1699999999999 "''p1''" 1700003600000] old
  have "\<not> verifyNullifierProof (sample_bundle 1699999999999) ''p1'' ''test_registry_root''
          1700003600000"
    by simp
  moreover
  from freshness_boundary [OF sample_bundle_checks(1) sample_bundle_checks(2)
      sample_bundle_checks(3), of 1700000000001 "''p1''" 1700003600000] new
  have "verifyNullifierProof (sample_bundle 1700000000001) ''p1'' ''test_registry_root''
          1700003600000"
    by simp
  ultimately show ?thesis by simp
qed

subsection \<open>Input validation\<close>

text \<open>
  C6, as stated, fails: \<open>generateSecureNullifier\<close> checks the vote choice and nothing
  else, so it returns a bundle for the empty proposal identifier.
\<close>

theorem validation_counterexample:
  "\<not> isl (generateSecureNullifier sample_credentials [] 1
            ''78377b525757b494427f89014f97d79928f3938d14eb51e20fb5dec9834eb304'' 1700000000000
            ''13ac89a762356aed906c5d404ef993aaa20a409f6a7d7c1175aff994bf64c054'')"
  by (simp add: generateSecureNullifier_def Let_def)

text \<open>
  C6, amended. \<open>generateSecureNullifier\<close> fails with the invalid-vote-choice error for
  every vote choice other than 0 and 1, before it computes anything, and for 0 and 1
  returns a bundle that commits to that very choice. \<open>validateInputs\<close> rejects an empty
  proposal identifier and, when the identifier is not empty, a vote choice other than 0
  and 1; in both cases \<open>generateVoteProof\<close> fails, with its one error for every failure.
\<close>

theorem validation_fail_fast:
  "(v \<noteq> 0 \<and> v \<noteq> 1 \<longrightarrow> generateSecureNullifier c p v n t bl = Inl InvalidVoteChoice) \<and>
   (v = 0 \<or> v = 1 \<longrightarrow>
      (\<exists>b. generateSecureNullifier c p v n t bl = Inr b \<and>
           voteCommitment b = pedersenCommit (number_toString v) bl \<and>
           rangeProof b = generateRangeProof v bl)) \<and>
   (zk_proposalId i = [] \<longrightarrow>
      validateInputs i = Inl ProposalIdRequired \<and>
      generateVoteProof z i = Inl ProofGenerationFailed) \<and>
   (zk_voteChoice i \<noteq> 0 \<and> zk_voteChoice i \<noteq> 1 \<longrightarrow>
      isl (validateInputs i) \<and> generateVoteProof z i = Inl ProofGenerationFailed) \<and>
   (zk_proposalId i \<noteq> [] \<and> zk_voteChoice i \<noteq> 0 \<and> zk_voteChoice i \<noteq> 1 \<longrightarrow>
      validateInputs i = Inl VoteChoiceInvalid)"
  by (auto simp: generateSecureNullifier_def Let_def validateInputs_def generateVoteProof_def)

text \<open>The vote choice 5, an empty proposal identifier, and the vote choice 2.\<close>

theorem validation_fail_fast_witness:
  "generateSecureNullifier sample_credentials ''test_proposal'' 5 [] 0 [] = Inl InvalidVoteChoice \<and>
   generateVoteProof (\<lambda>i n c. []) (sample_inputs [] 1) = Inl ProofGenerationFailed \<and>
   generateVoteProof (\<lambda>i n c. []) (sample_inputs ''p1'' 2) = Inl ProofGenerationFailed \<and>
   validateInputs (sample_inputs ''p1'' 2) = Inl VoteChoiceInvalid"
proof -
  have a: "zk_proposalId (sample_inputs [] 1) = []"
    and b: "zk_voteChoice (sample_inputs ''p1'' 2) \<noteq> 0 \<and> zk_voteChoice (sample_inputs ''p1'' 2) \<noteq> 1"
    and c: "zk_proposalId (sample_inputs ''p1'' 2) \<noteq> []"
    by (simp_all add: sample_inputs_def)
  show ?thesis
    using validation_fail_fast [of 5 sample_credentials "''test_proposal''" "[]" 0 "[]"
            "sample_inputs [] 1" "\<lambda>i n c. []"]
          validation_fail_fast [of 5 sample_credentials "''test_proposal''" "[]" 0 "[]"
            "sample_inputs ''p1'' 2" "\<lambda>i n c. []"]
          a b c
    by simp
qed

subsection \<open>The order of the verifier's checks\<close>

text \<open>
  C7, as stated, fails. The claim puts the structure of the bundle first and the
  timestamp second; the code starts with the range proof. The first bundle below has a
  range proof of the wrong width and the timestamp 1: its structure is invalid and it is
  stale, and the code returns at the range-proof check. The claim also has a last check
  that binds the nullifier to the proposal; the second bundle verifies for \<open>p1\<close> and for
  any other proposal alike.
\<close>

theorem verifier_check_order_counterexample:
  "\<not> verifyNullifierStructure ((sample_bundle 1)\<lparr>rangeProof := ''tampered_range_proof''\<rparr>) \<and>
   \<not> \<bar>1700000000000 - timestamp ((sample_bundle 1)\<lparr>rangeProof := ''tampered_range_proof''\<rparr>)\<bar>
       \<le> 3600000 \<and>
   verifyNullifierProof_outcome ((sample_bundle 1)\<lparr>rangeProof := ''tampered_range_proof''\<rparr>)
       ''p1'' ''test_registry_root'' 1700000000000 = ReturnsFalseAt RangeProofCheck \<and>
   verifyNullifierProof (sample_bundle 1700000000000) ''p1'' ''test_registry_root''
       1700000000000 \<and>
   verifyNullifierProof (sample_bundle 1700000000000) ''wrong_proposal'' ''test_registry_root''
       1700000000000"
  by (simp add: sample_bundle_def verifyNullifierProof_def verifyNullifierProof_outcome_def
        verifyRangeProof_def verifyMembershipProof_def verifyNullifierStructure_def)

text \<open>
  C7, amended. \<open>verifyNullifierProof\<close> checks, in this order, the range proof (range proof
  and vote commitment 64 wide), the membership proof (64 wide, root not empty), the
  structure (all six digests 64 wide, timestamp positive) and the timestamp (within
  3600000 ms of the clock); it returns false at the first check that fails, without
  evaluating the later ones.
\<close>

theorem verifier_check_order:
  "(verifyNullifierProof_outcome b p r now = ReturnsFalseAt RangeProofCheck \<longleftrightarrow>
      \<not> verifyRangeProof (rangeProof b) (voteCommitment b)) \<and>
   (verifyNullifierProof_outcome b p r now = ReturnsFalseAt MembershipProofCheck \<longleftrightarrow>
      verifyRangeProof (rangeProof b) (voteCommitment b) \<and>
      \<not> verifyMembershipProof (membershipProof b) r) \<and>
   (verifyNullifierProof_outcome b p r now = ReturnsFalseAt StructureCheck \<longleftrightarrow>
      verifyRangeProof (rangeProof b) (voteCommitment b) \<and>
      verifyMembershipProof (membershipProof b) r \<and>
      \<not> verifyNullifierStructure b) \<and>
   (verifyNullifierProof_outcome b p r now = ReturnsFalseAt TimestampCheck \<longleftrightarrow>
      verifyRangeProof (rangeProof b) (voteCommitment b) \<and>
      verifyMembershipProof (membershipProof b) r \<and>
      verifyNullifierStructure b \<and>
      \<not> \<bar>now - timestamp b\<bar> \<le> 3600000) \<and>
   (\<not> verifyNullifierProof b p r now \<longleftrightarrow>
      (\<exists>c. verifyNullifierProof_outcome b p r now = ReturnsFalseAt c))"
  by (simp add: verifyNullifierProof_def verifyNullifierProof_outcome_def)

text \<open>A bundle whose membership proof alone has the wrong width.\<close>

theorem verifier_check_order_witness:
  "verifyNullifierProof_outcome ((sample_bundle 1)\<lparr>membershipProof := ''tampered''\<rparr>)
       ''p1'' ''test_registry_root'' 1700000000000 = ReturnsFalseAt MembershipProofCheck"
proof -
  have "verifyRangeProof (rangeProof ((sample_bundle 1)\<lparr>membershipProof := ''tampered''\<rparr>))
          (voteCommitment ((sample_bundle 1)\<lparr>membershipProof := ''tampered''\<rparr>))"
    by (simp add: sample_bundle_def verifyRangeProof_def)
  moreover have "\<not> verifyMembershipProof
          (membershipProof ((sample_bundle 1)\<lparr>membershipProof := ''tampered''\<rparr>))
          ''test_registry_root''"
    by (simp add: verifyMembershipProof_def)
  ultimately show ?thesis
    using verifier_check_order [of "(sample_bundle 1)\<lparr>membershipProof := ''tampered''\<rparr>"
        "''p1''" "''test_registry_root''" 1700000000000]
    by blast
qed

subsection \<open>Purity of the verifier\<close>

text \<open>
  C8, as stated, fails: the verifier reads the clock, so two calls with the same bundle,
  proposal and root differ when the hour runs out between them. The same bundle is
  accepted at the time of its stamp and rejected 3600001 ms later.
\<close>

theorem verifier_purity_counterexample:
  "verifyNullifierProof (sample_bundle 1700000000000) ''p1'' ''test_registry_root''
       1700000000000 \<and>
   \<not> verifyNullifierProof (sample_bundle 1700000000000) ''p1'' ''test_registry_root''
       1700003600001"
  by (simp add: verifyNullifierProof_iff sample_bundle_checks) (simp add: sample_bundle_def)

text \<open>
  C8, amended. Two calls of \<open>verifyNullifierProof\<close> with the same bundle, proposal and
  root return the same boolean whenever their clock readings lie on the same side of the
  one-hour window around the bundle's timestamp, in particular at the same reading. The
  function has the bundle, the proposal, the root and the clock as its only inputs and a
  boolean as its only result: it neither reads nor changes a registry.
\<close>

theorem verifier_deterministic_in_window:
  assumes "\<bar>now1 - timestamp b\<bar> \<le> 3600000 \<longleftrightarrow> \<bar>now2 - timestamp b\<bar> \<le> 3600000"
  shows "verifyNullifierProof b p root now1 = verifyNullifierProof b p root now2"
  using assms by (simp add: verifyNullifierProof_iff)

text \<open>Two readings five seconds apart, both inside the window.\<close>

theorem verifier_deterministic_in_window_witness:
  "verifyNullifierProof (sample_bundle 1700000000000) ''p1'' ''test_registry_root'' 1700000000000
   = verifyNullifierProof (sample_bundle 1700000000000) ''p1'' ''test_registry_root''
       1700000005000"
proof -
  have "\<bar>1700000000000 - timestamp (sample_bundle 1700000000000)\<bar> \<le> 3600000 \<longleftrightarrow>
        \<bar>1700000005000 - timestamp (sample_bundle 1700000000000)\<bar> \<le> 3600000"
    by (simp add: sample_bundle_def)
  then show ?thesis
    by (rule verifier_deterministic_in_window)
qed

subsection \<open>The vote-status query\<close>

text \<open>
  C9. \<open>getVoteStatus\<close> answers \<open>already-voted\<close> exactly when the nullifier that
  \<open>generateNullifier\<close> derives from the voter secret and the proposal is a key of the
  used-nullifier map, and \<open>can-vote\<close> otherwise; the service is the same after the query.
\<close>

theorem getVoteStatus_correct:
  "status (fst (getVoteStatus svc s p now)) =
     (if ns_generateNullifier s p \<in> dom (ns_usedNullifiers svc) then AlreadyVoted else CanVote) \<and>
   snd (getVoteStatus svc s p now) = svc"
  by (auto simp: getVoteStatus_def checkVoteEligibility_def split: option.splits prod.splits)

text \<open>An empty service before and after \<open>recordVote\<close> for the same voter and proposal.\<close>

theorem getVoteStatus_correct_witness:
  "status (fst (getVoteStatus \<lparr>ns_usedNullifiers = Map.empty\<rparr> ''demo_voter_alice'' ''3'' 0))
     = CanVote \<and>
   status (fst (getVoteStatus
      (snd (recordVote \<lparr>ns_usedNullifiers = Map.empty\<rparr> ''demo_voter_alice'' ''3'' 0))
      ''demo_voter_alice'' ''3'' 5)) = AlreadyVoted"
proof -
  have "ns_generateNullifier ''demo_voter_alice'' ''3''
      \<notin> dom (ns_usedNullifiers \<lparr>ns_usedNullifiers = Map.empty\<rparr>)"
    by simp
  moreover have "ns_generateNullifier ''demo_voter_alice'' ''3'' \<in>
      dom (ns_usedNullifiers
        (snd (recordVote \<lparr>ns_usedNullifiers = Map.empty\<rparr> ''demo_voter_alice'' ''3'' 0)))"
    by (simp add: recordVote_def checkVoteEligibility_def)
  ultimately show ?thesis
    using getVoteStatus_correct [of "\<lparr>ns_usedNullifiers = Map.empty\<rparr>"
            "''demo_voter_alice''" "''3''" 0]
          getVoteStatus_correct
            [of "snd (recordVote \<lparr>ns_usedNullifiers = Map.empty\<rparr> ''demo_voter_alice'' ''3'' 0)"
             "''demo_voter_alice''" "''3''" 5]
    by simp
qed

subsection \<open>Atomicity of rejection\<close>

text \<open>
  C10. A rejected submission changes nothing: when \<open>attemptVote\<close> does not succeed, the
  map and the history are as before the call, and when \<open>addNullifier\<close> returns false,
  for a failed proof or for a known nullifier, the entries, the tree and the root of the
  registry are as before the call.
\<close>

theorem rejection_is_atomic:
  "(\<not> success (fst (attemptVote sys v)) \<longrightarrow> snd (attemptVote sys v) = sys) \<and>
   (\<not> fst (addNullifier reg b p now) \<longrightarrow> snd (addNullifier reg b p now) = reg)"
  by (auto simp: attemptVote_def addNullifier_def split: option.splits)

text \<open>Alice's second vote on \<open>A\<close>, and a bundle with a range proof of the wrong width.\<close>

theorem rejection_is_atomic_witness:
  "snd (attemptVote (snd (attemptVote new_DoubleVotePreventionSystem (alice_vote ''A'' 1)))
                    (alice_vote ''A'' 0))
     = snd (attemptVote new_DoubleVotePreventionSystem (alice_vote ''A'' 1)) \<and>
   snd (addNullifier seeded_registry ((sample_bundle 1700000000000)\<lparr>rangeProof := ''tampered''\<rparr>)
          ''p1'' 1700000000000) = seeded_registry"
proof -
  have "\<not> success (fst (attemptVote
            (snd (attemptVote new_DoubleVotePreventionSystem (alice_vote ''A'' 1)))
            (alice_vote ''A'' 0)))"
    by (simp add: attemptVote_def new_DoubleVotePreventionSystem_def alice_vote_def)
  moreover have "\<not> fst (addNullifier seeded_registry
            ((sample_bundle 1700000000000)\<lparr>rangeProof := ''tampered''\<rparr>) ''p1'' 1700000000000)"
    by (simp add: addNullifier_def verifyNullifierProof_iff verifyRangeProof_def)
  ultimately show ?thesis
    using rejection_is_atomic
      [of "snd (attemptVote new_DoubleVotePreventionSystem (alice_vote ''A'' 1))"
          "alice_vote ''A'' 0" seeded_registry
          "(sample_bundle 1700000000000)\<lparr>rangeProof := ''tampered''\<rparr>" "''p1''" 1700000000000]
    by simp
qed

end
